theory Spec2Isabelle
  imports Complex_Main
begin

section \<open>Data model of analyze_alignment.py\<close>

text \<open>
  The script works on IEEE doubles; they are idealised here as the reals, so every
  statement below is about exact arithmetic. Python exceptions are values of \<open>error\<close>.
\<close>

datatype error = AttributeError | TypeError | IndexError

text \<open>
  A channel as the log decoder returns it, \<^verbatim>\<open>{'timestamps': [...], 'values': [...]}\<close>
  with two equally long arrays, kept as the list of its (timestamp, value) samples.
\<close>

type_synonym 'a channel = "(real \<times> 'a) list"

text \<open>
  \<^verbatim>\<open>self.data\<close>: the dictionary of loaded channels, one field per key that
  \<^verbatim>\<open>find_alignment_sessions\<close> and \<^verbatim>\<open>_extract_session\<close> read. \<open>None\<close> is a key that
  is absent or whose value is \<^verbatim>\<open>None\<close> (\<^verbatim>\<open>data_dict.get(key) is None\<close>).
\<close>

record log_data =
  data_status :: "string channel option"
  data_forward_error :: "real channel option"
  data_lateral_error :: "real channel option"
  data_rotation_error :: "real channel option"
  data_forward_speed :: "real channel option"
  data_lateral_speed :: "real channel option"
  data_rotation_speed :: "real channel option"
  data_vision_has_target :: "bool channel option"
  data_fully_aligned :: "bool channel option"

record alignment_metrics =
  success :: bool
  alignment_time :: "real option"
  settling_time :: "real option"
  final_forward_error :: "real option"
  final_lateral_error :: "real option"
  final_rotation_error :: "real option"
  max_forward_error :: real
  max_lateral_error :: real
  max_rotation_error :: real
  forward_overshoot :: real
  lateral_overshoot :: real
  rotation_overshoot :: real
  forward_oscillations :: nat
  lateral_oscillations :: nat
  rotation_oscillations :: nat
  avg_forward_speed :: real
  avg_lateral_speed :: real
  avg_rotation_speed :: real
  target_lost_count :: nat
  target_id :: "int option"

record alignment_session =
  start_time :: real
  end_time :: real
  duration :: real
  metrics :: alignment_metrics
  timestamps :: "real list"
  forward_error :: "real list"
  lateral_error :: "real list"
  rotation_error :: "real list"
  forward_speed :: "real list"
  lateral_speed :: "real list"
  rotation_speed :: "real list"
  has_target :: "bool list"
  aligned_flags :: "bool list"

text \<open>
  What \<^verbatim>\<open>get_values_in_range\<close> hands back: a plain Python list (the literal \<^verbatim>\<open>[]\<close> of
  the absent branch) or a NumPy array (the masked selection). Both have a length; only
  the array has \<^verbatim>\<open>.astype\<close>.
\<close>

datatype 'a pyseq = PyList "'a list" | NdArray "'a list"

fun items :: "'a pyseq \<Rightarrow> 'a list" where
  "items (PyList xs) = xs"
| "items (NdArray xs) = xs"

definition len :: "'a pyseq \<Rightarrow> nat" where
  "len s = length (items s)"

text \<open>\<^verbatim>\<open>x.astype(float)\<close>: an AttributeError on a Python list, 1.0/0.0 on a bool array.\<close>

fun astype_float :: "bool pyseq \<Rightarrow> error + real list" where
  "astype_float (PyList xs) = Inl AttributeError"
| "astype_float (NdArray xs) = Inr (map (\<lambda>b. if b then 1 else 0) xs)"

section \<open>NumPy's one-dimensional linear interpolation\<close>

text \<open>
  \<^verbatim>\<open>np.interp(x, xp, fp)\<close> at one point \<open>x\<close>, over the sample points \<open>zip xp fp\<close>:
  left of the first point it is the first value, right of the last point the last value,
  at a sample point the value there, and between two neighbours the line through them.
  NumPy locates the interval by a search for the last \<open>j\<close> with \<open>xp[j] \<le> x\<close>; that is the
  interval this recursion stops at when \<open>xp\<close> is non-decreasing.
\<close>

fun interp_at :: "(real \<times> real) list \<Rightarrow> real \<Rightarrow> real" where
  "interp_at [] x = 0"
| "interp_at [(x0, y0)] x = y0"
| "interp_at ((x0, y0) # (x1, y1) # ps) x =
     (if x < x1 then (if x \<le> x0 then y0 else (y1 - y0) / (x1 - x0) * (x - x0) + y0)
      else interp_at ((x1, y1) # ps) x)"

definition np_interp :: "real list \<Rightarrow> real list \<Rightarrow> real list \<Rightarrow> real list" where
  "np_interp x xp fp = map (interp_at (zip xp fp)) x"

section \<open>The metrics engine\<close>

text \<open>
  The element-wise conjunction of the three tolerance tests. Every caller passes arrays
  of one length (the reference timestamps'), so \<open>zip\<close> loses nothing.
\<close>

definition within_tolerance ::
  "real list \<Rightarrow> real list \<Rightarrow> real list \<Rightarrow> real \<Rightarrow> real \<Rightarrow> real \<Rightarrow> bool list" where
  "within_tolerance forward_err lateral_err rotation_err forward_tol lateral_tol rotation_tol =
     map (\<lambda>(f, l, r). \<bar>f\<bar> < forward_tol \<and> \<bar>l\<bar> < lateral_tol \<and> \<bar>r\<bar> < rotation_tol)
       (zip forward_err (zip lateral_err rotation_err))"

text \<open>
  The \<^verbatim>\<open>for i in range(len(timestamps))\<close> loop of \<^verbatim>\<open>_calculate_settling_time\<close>, run
  over the remaining samples \<open>(timestamps[i], within_tol[i])\<close>; \<open>ts\<close> and \<open>ws\<close> are the
  whole arrays, which the future mask is taken over.
\<close>

fun settling_loop :: "real list \<Rightarrow> bool list \<Rightarrow> real \<Rightarrow> (real \<times> bool) list \<Rightarrow> real option" where
  "settling_loop ts ws settle_duration [] = None"
| "settling_loop ts ws settle_duration ((time_at_i, w) # rest) =
     (if w \<and> list_ex (\<lambda>t. t \<ge> time_at_i + settle_duration) ts
         \<and> list_all snd (filter (\<lambda>(t, w'). t \<ge> time_at_i + settle_duration) (zip ts ws))
      then Some time_at_i
      else settling_loop ts ws settle_duration rest)"

definition calculate_settling_time ::
  "real list \<Rightarrow> real list \<Rightarrow> real list \<Rightarrow> real list \<Rightarrow> real \<Rightarrow> real \<Rightarrow> real \<Rightarrow> real \<Rightarrow> real option" where
  "calculate_settling_time ts forward_err lateral_err rotation_err
       forward_tol lateral_tol rotation_tol settle_duration =
     (let within_tol = within_tolerance forward_err lateral_err rotation_err
                         forward_tol lateral_tol rotation_tol
      in if \<not> list_ex (\<lambda>w. w) within_tol then None
         else settling_loop ts within_tol settle_duration (zip ts within_tol))"

definition calculate_overshoot :: "real list \<Rightarrow> real" where
  "calculate_overshoot err =
     (if length err < 2 then 0
      else let initial_error = err ! 0 in
        if \<bar>initial_error\<bar> < 0.001 then 0
        else if initial_error > 0 then
          (let overshoot = Min (set err) in
             if overshoot < 0 then \<bar>overshoot / initial_error\<bar> * 100 else 0)
        else
          (let overshoot = Max (set err) in
             if overshoot > 0 then \<bar>overshoot / initial_error\<bar> * 100 else 0))"

definition count_zero_crossings :: "real list \<Rightarrow> nat" where
  "count_zero_crossings signal =
     (if length signal < 2 then 0
      else length (filter (\<lambda>(a, b). sgn b - sgn a \<noteq> 0) (zip signal (tl signal))))"

definition count_target_losses :: "bool list \<Rightarrow> nat" where
  "count_target_losses ht =
     (if length ht < 2 then 0
      else length (filter (\<lambda>(a, b). a = True \<and> b = False) (zip (butlast ht) (tl ht))))"

definition final_value :: "real list \<Rightarrow> real option" where
  "final_value xs = (if length xs > 0 then Some (last xs) else None)"

definition max_abs :: "real list \<Rightarrow> real" where
  "max_abs xs = (if length xs > 0 then Max (set (map abs xs)) else 0)"

definition mean :: "real list \<Rightarrow> real" where
  "mean xs = sum_list xs / real (length xs)"

definition mean_abs :: "real list \<Rightarrow> real" where
  "mean_abs xs = (if length xs > 0 then mean (map abs xs) else 0)"

definition calculate_metrics ::
  "real list \<Rightarrow> real list \<Rightarrow> real list \<Rightarrow> real list \<Rightarrow> real list \<Rightarrow> real list \<Rightarrow> real list
     \<Rightarrow> bool list \<Rightarrow> bool list \<Rightarrow> alignment_metrics" where
  "calculate_metrics ts forward_err lateral_err rotation_err forward_spd lateral_spd rotation_spd
       ht flags =
     (let succ = list_ex (\<lambda>b. b) flags;
          aligned_indices = filter (\<lambda>i. flags ! i) [0..<length flags]
      in \<lparr> success = succ,
           alignment_time =
             (if succ \<and> length aligned_indices > 0 then Some (ts ! (aligned_indices ! 0))
              else None),
           settling_time =
             calculate_settling_time ts forward_err lateral_err rotation_err 0.10 0.05 2.0 0.5,
           final_forward_error = final_value forward_err,
           final_lateral_error = final_value lateral_err,
           final_rotation_error = final_value rotation_err,
           max_forward_error = max_abs forward_err,
           max_lateral_error = max_abs lateral_err,
           max_rotation_error = max_abs rotation_err,
           forward_overshoot = calculate_overshoot forward_err,
           lateral_overshoot = calculate_overshoot lateral_err,
           rotation_overshoot = calculate_overshoot rotation_err,
           forward_oscillations = count_zero_crossings forward_err,
           lateral_oscillations = count_zero_crossings lateral_err,
           rotation_oscillations = count_zero_crossings rotation_err,
           avg_forward_speed = mean_abs forward_spd,
           avg_lateral_speed = mean_abs lateral_spd,
           avg_rotation_speed = mean_abs rotation_spd,
           target_lost_count = count_target_losses ht,
           target_id = None \<rparr>)"

section \<open>Session extraction\<close>

definition get_values_in_range ::
  "'a channel option \<Rightarrow> real \<Rightarrow> real \<Rightarrow> real pyseq \<times> 'a pyseq" where
  "get_values_in_range ch t_start t_end =
     (case ch of
        None \<Rightarrow> (PyList [], PyList [])
      | Some c \<Rightarrow>
          (let sel = filter (\<lambda>(t, v). t \<ge> t_start \<and> t \<le> t_end) c
           in (NdArray (map fst sel), NdArray (map snd sel))))"

definition interp_to_common :: "real list \<Rightarrow> real list \<Rightarrow> real list \<Rightarrow> real list" where
  "interp_to_common t_src vals t_dest =
     (if length t_src = 0 \<or> length vals = 0 then map (\<lambda>_. 0) t_dest
      else np_interp t_dest t_src vals)"

text \<open>The \<^verbatim>\<open>if / elif / else: return None\<close> that picks the reference timestamps.\<close>

definition reference_timestamps :: "real pyseq \<Rightarrow> real pyseq \<Rightarrow> real list option" where
  "reference_timestamps t_forward_err t_rotation_err =
     (if len t_forward_err > 0 then Some (items t_forward_err)
      else if len t_rotation_err > 0 then Some (items t_rotation_err)
      else None)"

text \<open>
  The reference timestamps \<^verbatim>\<open>_extract_session\<close> picks for the window from \<open>t_start\<close> to
  \<open>t_end\<close>: the choice above on the two selections it makes there.
\<close>

definition window_reference :: "log_data \<Rightarrow> real \<Rightarrow> real \<Rightarrow> real list option" where
  "window_reference d t_start t_end =
     reference_timestamps (fst (get_values_in_range (data_forward_error d) t_start t_end))
       (fst (get_values_in_range (data_rotation_error d) t_start t_end))"

text \<open>
  \<^verbatim>\<open>_extract_session\<close>. The indices come from \<^verbatim>\<open>range(len(...))\<close> and are never
  negative. \<open>Inr None\<close> is the silent \<^verbatim>\<open>return None\<close>, \<open>Inl\<close> an exception.
  The duration and its comparison with 0.1 are exact here. The code subtracts two doubles
  and rounds the difference, so for a span within one rounding error of 0.1 its test can
  come out the other way; the examples below use spans where the two agree.
\<close>

definition extract_session :: "log_data \<Rightarrow> nat \<Rightarrow> nat \<Rightarrow> error + alignment_session option" where
  "extract_session d start_idx end_idx =
     (case data_status d of
        None \<Rightarrow> Inl TypeError
      | Some status_data \<Rightarrow>
          if start_idx \<ge> length status_data \<or> end_idx \<ge> length status_data then Inl IndexError
          else
            let t_start = fst (status_data ! start_idx);
                t_end = fst (status_data ! end_idx);
                dur = t_end - t_start
            in if dur < 0.1 then Inr None
               else
                 let (t_forward_err, forward_err) = get_values_in_range (data_forward_error d) t_start t_end;
                     (t_lateral_err, lateral_err) = get_values_in_range (data_lateral_error d) t_start t_end;
                     (t_rotation_err, rotation_err) = get_values_in_range (data_rotation_error d) t_start t_end;
                     (t_forward_spd, forward_spd) = get_values_in_range (data_forward_speed d) t_start t_end;
                     (t_lateral_spd, lateral_spd) = get_values_in_range (data_lateral_speed d) t_start t_end;
                     (t_rotation_spd, rotation_spd) = get_values_in_range (data_rotation_speed d) t_start t_end;
                     (t_has_target, ht) = get_values_in_range (data_vision_has_target d) t_start t_end;
                     (t_aligned, flags) = get_values_in_range (data_fully_aligned d) t_start t_end
                 in (case reference_timestamps t_forward_err t_rotation_err of
                      None \<Rightarrow> Inr None
                    | Some tstamps \<Rightarrow>
                        (let forward_err' = interp_to_common (items t_forward_err) (items forward_err) tstamps;
                            lateral_err' = interp_to_common (items t_lateral_err) (items lateral_err) tstamps;
                            rotation_err' = interp_to_common (items t_rotation_err) (items rotation_err) tstamps;
                            forward_spd' = interp_to_common (items t_forward_spd) (items forward_spd) tstamps;
                            lateral_spd' = interp_to_common (items t_lateral_spd) (items lateral_spd) tstamps;
                            rotation_spd' = interp_to_common (items t_rotation_spd) (items rotation_spd) tstamps
                        in (case astype_float ht of
                             Inl e \<Rightarrow> Inl e
                           | Inr ht_float \<Rightarrow>
                               (let ht' = map (\<lambda>v. v > 0.5) (interp_to_common (items t_has_target) ht_float tstamps)
                               in (case astype_float flags of
                                    Inl e \<Rightarrow> Inl e
                                  | Inr flags_float \<Rightarrow>
                                      (let flags' = map (\<lambda>v. v > 0.5)
                                                     (interp_to_common (items t_aligned) flags_float tstamps);
                                          rel = map (\<lambda>t. t - t_start) tstamps
                                      in Inr (Some
                                           \<lparr> start_time = t_start,
                                             end_time = t_end,
                                             duration = dur,
                                             metrics = calculate_metrics rel forward_err' lateral_err'
                                                         rotation_err' forward_spd' lateral_spd'
                                                         rotation_spd' ht' flags',
                                             timestamps = rel,
                                             forward_error = forward_err',
                                             lateral_error = lateral_err',
                                             rotation_error = rotation_err',
                                             forward_speed = forward_spd',
                                             lateral_speed = lateral_spd',
                                             rotation_speed = rotation_spd',
                                             has_target = ht',
                                             aligned_flags = flags' \<rparr>))))))))"

section \<open>Session segmentation\<close>

text \<open>
  The \<^verbatim>\<open>for i in range(len(status_data['timestamps']))\<close> loop of
  \<^verbatim>\<open>find_alignment_sessions\<close>, over the remaining status values from index \<open>i\<close> on,
  with the loop variables \<^verbatim>\<open>in_session\<close>, \<^verbatim>\<open>session_start_idx\<close> and \<^verbatim>\<open>sessions\<close>
  passed along. The call \<^verbatim>\<open>self._extract_session\<close> is the parameter \<open>ex\<close>; an exception
  it raises ends the loop. An \<^verbatim>\<open>AlignmentSession\<close> object is always truthy, so
  \<^verbatim>\<open>if session:\<close> tests for \<^verbatim>\<open>None\<close> only.
\<close>

fun scan_loop ::
  "(nat \<Rightarrow> nat \<Rightarrow> error + 'a option) \<Rightarrow> string list \<Rightarrow> nat \<Rightarrow> bool \<Rightarrow> nat option \<Rightarrow> 'a list
     \<Rightarrow> error + (bool \<times> nat option \<times> 'a list)" where
  "scan_loop ex [] i in_session session_start_idx sessions =
     Inr (in_session, session_start_idx, sessions)"
| "scan_loop ex (status # rest) i in_session session_start_idx sessions =
     (if \<not> in_session \<and> status \<in> set [''STARTED'', ''ALIGNING'']
      then scan_loop ex rest (Suc i) True (Some i) sessions
      else if in_session \<and> status \<in> set [''COMPLETED'', ''INTERRUPTED'']
      then (case session_start_idx of
              None \<Rightarrow> Inl TypeError
            | Some s \<Rightarrow>
                (case ex s i of
                   Inl e \<Rightarrow> Inl e
                 | Inr None \<Rightarrow> scan_loop ex rest (Suc i) False None sessions
                 | Inr (Some session) \<Rightarrow> scan_loop ex rest (Suc i) False None (sessions @ [session])))
      else scan_loop ex rest (Suc i) in_session session_start_idx sessions)"

text \<open>
  The block after the loop: a session still open at the end of the log is extracted up
  to \<open>final_idx\<close>.
\<close>

definition close_open_session ::
  "(nat \<Rightarrow> nat \<Rightarrow> error + 'a option) \<Rightarrow> nat \<Rightarrow> bool \<Rightarrow> nat option \<Rightarrow> 'a list \<Rightarrow> error + 'a list" where
  "close_open_session ex final_idx in_session session_start_idx sessions =
     (case session_start_idx of
        None \<Rightarrow> Inr sessions
      | Some s \<Rightarrow>
          if in_session then
            (case ex s final_idx of
               Inl e \<Rightarrow> Inl e
             | Inr None \<Rightarrow> Inr sessions
             | Inr (Some session) \<Rightarrow> Inr (sessions @ [session]))
          else Inr sessions)"

text \<open>
  The loop from index 0, then the closing block with
  \<^verbatim>\<open>len(status_data['timestamps']) - 1\<close>. That index is only used when \<^verbatim>\<open>in_session\<close>
  holds, that is after at least one sample, so it is never negative.
\<close>

definition scan_sessions ::
  "(nat \<Rightarrow> nat \<Rightarrow> error + 'a option) \<Rightarrow> string channel \<Rightarrow> error + 'a list" where
  "scan_sessions ex status_data =
     (case scan_loop ex (map snd status_data) 0 False None [] of
        Inl e \<Rightarrow> Inl e
      | Inr (in_session, session_start_idx, sessions) \<Rightarrow>
          close_open_session ex (length status_data - 1) in_session session_start_idx sessions)"

definition find_alignment_sessions :: "log_data \<Rightarrow> error + alignment_session list" where
  "find_alignment_sessions d =
     (case data_status d of
        None \<Rightarrow> Inr []
      | Some status_data \<Rightarrow> scan_sessions (extract_session d) status_data)"

text \<open>
  The status-index pairs \<open>(start_idx, end_idx)\<close> that the scan passes to
  \<^verbatim>\<open>_extract_session\<close>, in order: the same loop with an extraction that keeps the pair.
\<close>

definition session_ranges :: "string channel \<Rightarrow> (nat \<times> nat) list" where
  "session_ranges status_data =
     (case scan_sessions (\<lambda>s e. Inr (Some (s, e))) status_data of
        Inl e \<Rightarrow> []
      | Inr rs \<Rightarrow> rs)"

section \<open>Summary statistics\<close>

text \<open>\<^verbatim>\<open>np.std\<close> with its default \<^verbatim>\<open>ddof=0\<close>: the population standard deviation.\<close>

definition np_std :: "real list \<Rightarrow> real" where
  "np_std xs = sqrt (mean (map (\<lambda>x. (x - mean xs)\<^sup>2) xs))"

text \<open>
  The list comprehension \<^verbatim>\<open>[v for s in sessions if v]\<close> over an \<^verbatim>\<open>Optional[float]\<close>:
  Python's truth test drops \<^verbatim>\<open>None\<close> and drops \<^verbatim>\<open>0.0\<close>.
\<close>

definition truthy_values :: "real option list \<Rightarrow> real list" where
  "truthy_values vs = concat (map (\<lambda>v. case v of None \<Rightarrow> [] | Some x \<Rightarrow> if x \<noteq> 0 then [x] else []) vs)"

record summary_statistics =
  success_rate :: real
  alignment_time_stats :: "(real \<times> real) option"
  settling_time_stats :: "(real \<times> real) option"

text \<open>
  The summary block at the end of \<^verbatim>\<open>main\<close>, entered for more than one session; the
  printed numbers are returned, a line that is not printed is \<open>None\<close>.
\<close>

definition summary :: "alignment_session list \<Rightarrow> summary_statistics option" where
  "summary sessions =
     (if length sessions > 1 then
        (let alignment_times = truthy_values (map (\<lambda>s. alignment_time (metrics s)) sessions);
             settling_times = truthy_values (map (\<lambda>s. settling_time (metrics s)) sessions)
         in Some
           \<lparr> success_rate =
               real (length (filter (\<lambda>s. success (metrics s)) sessions))
                 / real (length sessions) * 100,
             alignment_time_stats =
               (if alignment_times \<noteq> [] then Some (mean alignment_times, np_std alignment_times)
                else None),
             settling_time_stats =
               (if settling_times \<noteq> [] then Some (mean settling_times, np_std settling_times)
                else None) \<rparr>)
      else None)"

section \<open>The segmenter as the specification words it\<close>

text \<open>
  The two-state machine of the specification: \<open>IDLE\<close>, or \<open>IN_SESSION\<close> with the index
  that opened the session. A step reads the status at index \<open>i\<close> and returns the next
  state and the index range it closed, if any.
\<close>

datatype segmenter_state = IDLE | IN_SESSION nat

fun segmenter_step :: "segmenter_state \<Rightarrow> nat \<Rightarrow> string \<Rightarrow> segmenter_state \<times> (nat \<times> nat) option" where
  "segmenter_step IDLE i status =
     (if status = ''STARTED'' \<or> status = ''ALIGNING'' then (IN_SESSION i, None) else (IDLE, None))"
| "segmenter_step (IN_SESSION s) i status =
     (if status = ''COMPLETED'' \<or> status = ''INTERRUPTED'' then (IDLE, Some (s, i))
      else (IN_SESSION s, None))"

text \<open>
  Running the machine from index \<open>i\<close>; \<open>n\<close> counts the samples read so far, and a
  session open at the end is closed at the final sample index \<open>i - 1\<close>.
\<close>

fun segmenter_run :: "segmenter_state \<Rightarrow> nat \<Rightarrow> string list \<Rightarrow> (nat \<times> nat) list" where
  "segmenter_run IDLE i [] = []"
| "segmenter_run (IN_SESSION s) i [] = [(s, i - 1)]"
| "segmenter_run st i (status # rest) =
     (case segmenter_step st i status of
        (st', None) \<Rightarrow> segmenter_run st' (Suc i) rest
      | (st', Some r) \<Rightarrow> r # segmenter_run st' (Suc i) rest)"

text \<open>
  Extracting the ranges one after the other, as the scan does: a dropped range leaves
  no session, an exception ends the run.
\<close>

fun extract_all :: "(nat \<Rightarrow> nat \<Rightarrow> error + 'a option) \<Rightarrow> (nat \<times> nat) list \<Rightarrow> error + 'a list" where
  "extract_all ex [] = Inr []"
| "extract_all ex ((s, e) # rs) =
     (case ex s e of
        Inl err \<Rightarrow> Inl err
      | Inr r \<Rightarrow>
          (case extract_all ex rs of
             Inl err \<Rightarrow> Inl err
           | Inr xs \<Rightarrow> Inr ((case r of None \<Rightarrow> [] | Some x \<Rightarrow> [x]) @ xs)))"

text \<open>The loop variables \<^verbatim>\<open>in_session\<close> and \<^verbatim>\<open>session_start_idx\<close> that stand for a state.\<close>

fun state_flag :: "segmenter_state \<Rightarrow> bool" where
  "state_flag IDLE = False"
| "state_flag (IN_SESSION s) = True"

fun state_start :: "segmenter_state \<Rightarrow> nat option" where
  "state_start IDLE = None"
| "state_start (IN_SESSION s) = Some s"

text \<open>
  Index ranges in scan order, from index \<open>lo\<close> on: each range starts no earlier than
  \<open>lo\<close>, ends no earlier than it starts, and the next one starts after it has ended.
\<close>

fun ranges_ordered :: "nat \<Rightarrow> (nat \<times> nat) list \<Rightarrow> bool" where
  "ranges_ordered lo [] = True"
| "ranges_ordered lo ((s, e) # rs) = (lo \<le> s \<and> s \<le> e \<and> ranges_ordered (Suc e) rs)"

section \<open>Example logs\<close>

text \<open>
  The status sequence of the specification's segmenter test, 0.2 s apart, with a
  forward-error channel sampled at the same instants.
\<close>

definition seven_status_log :: log_data where
  "seven_status_log =
     \<lparr> data_status = Some [(0, ''IDLE''), (0.2, ''STARTED''), (0.4, ''ALIGNING''),
                           (0.6, ''COMPLETED''), (0.8, ''IDLE''), (1.0, ''STARTED''),
                           (1.2, ''INTERRUPTED'')],
       data_forward_error = Some [(0, 1), (0.2, 1), (0.4, 0.5), (0.6, 0), (0.8, 0), (1.0, 1),
                                  (1.2, 0.5)],
       data_lateral_error = None,
       data_rotation_error = None,
       data_forward_speed = None,
       data_lateral_speed = None,
       data_rotation_speed = None,
       data_vision_has_target = Some [(0, True)],
       data_fully_aligned = Some [(0, False), (0.6, True), (0.8, False)] \<rparr>"

text \<open>
  One attempt from 0 s to 1 s. The forward error has a single sample in the window, at
  0.5 s, the rotation error three.
\<close>

definition sparse_forward_log :: log_data where
  "sparse_forward_log =
     \<lparr> data_status = Some [(0, ''STARTED''), (1, ''COMPLETED'')],
       data_forward_error = Some [(0.5, 0)],
       data_lateral_error = None,
       data_rotation_error = Some [(0.2, 1), (0.5, 1), (0.8, 1)],
       data_forward_speed = None,
       data_lateral_speed = None,
       data_rotation_speed = None,
       data_vision_has_target = Some [(0, True)],
       data_fully_aligned = Some [(0, False)] \<rparr>"

text \<open>One attempt from 1 s to 2 s whose first forward-error sample comes at 1.25 s.\<close>

definition late_reference_log :: log_data where
  "late_reference_log =
     \<lparr> data_status = Some [(1, ''STARTED''), (2, ''COMPLETED'')],
       data_forward_error = Some [(1.25, 1), (1.5, 0), (2, 0)],
       data_lateral_error = None,
       data_rotation_error = None,
       data_forward_speed = None,
       data_lateral_speed = None,
       data_rotation_speed = None,
       data_vision_has_target = Some [(1, True)],
       data_fully_aligned = Some [(1, False), (2, True)] \<rparr>"

text \<open>
  One attempt from 0 s to 1 s with the three error channels logged and no
  \<^verbatim>\<open>FullyAligned\<close> field in the log.
\<close>

definition no_aligned_flag_log :: log_data where
  "no_aligned_flag_log =
     \<lparr> data_status = Some [(0, ''STARTED''), (1, ''COMPLETED'')],
       data_forward_error = Some [(0, 1), (0.5, 0.5), (1, 0)],
       data_lateral_error = Some [(0, 0), (1, 0)],
       data_rotation_error = Some [(0, 5), (1, 0)],
       data_forward_speed = None,
       data_lateral_speed = None,
       data_rotation_speed = None,
       data_vision_has_target = Some [(0, True)],
       data_fully_aligned = None \<rparr>"

text \<open>The same attempt as logged by a robot that does publish \<^verbatim>\<open>FullyAligned\<close>.\<close>

definition one_attempt_log :: log_data where
  "one_attempt_log = no_aligned_flag_log \<lparr> data_fully_aligned := Some [(0, False), (1, True)] \<rparr>"

text \<open>
  Two attempts. In the first the robot is already aligned at the first sample, in the
  second it is aligned 2 s after the start.
\<close>

definition two_attempts_log :: log_data where
  "two_attempts_log =
     \<lparr> data_status = Some [(0, ''STARTED''), (1, ''COMPLETED''), (2, ''STARTED''),
                           (5, ''COMPLETED'')],
       data_forward_error = Some [(0, 0), (1, 0), (2, 1), (4, 0), (5, 0)],
       data_lateral_error = None,
       data_rotation_error = None,
       data_forward_speed = None,
       data_lateral_speed = None,
       data_rotation_speed = None,
       data_vision_has_target = Some [(0, True)],
       data_fully_aligned = Some [(0, True), (2, False), (4, True)] \<rparr>"

text \<open>One STARTED to COMPLETED pair spanning \<open>t_end\<close> seconds, with all channels the extraction needs.\<close>

definition attempt_log :: "real \<Rightarrow> log_data" where
  "attempt_log t_end =
     \<lparr> data_status = Some [(0, ''STARTED''), (t_end, ''COMPLETED'')],
       data_forward_error = Some [(0, 1), (t_end, 0)],
       data_lateral_error = None,
       data_rotation_error = None,
       data_forward_speed = None,
       data_lateral_speed = None,
       data_rotation_speed = None,
       data_vision_has_target = Some [(0, True)],
       data_fully_aligned = Some [(0, False)] \<rparr>"

text \<open>
  An attempt of 3 s with a forward-error sample at each end of the window, logged
  without a \<^verbatim>\<open>Vision/HasTarget\<close> field.
\<close>

definition no_has_target_log :: log_data where
  "no_has_target_log = attempt_log 3 \<lparr> data_vision_has_target := None \<rparr>"

section \<open>Overshoot\<close>

text \<open>
  C7. The overshoot of an error signal \<open>e\<close> is 0 when \<open>e\<close> has fewer than two samples or
  \<open>|e[0]| < 0.001\<close>; otherwise it is \<open>max(0, -min e) / e[0] * 100\<close> when \<open>e[0] > 0\<close> and
  \<open>max(0, max e) / |e[0]| * 100\<close> when \<open>e[0] < 0\<close>. For \<open>[1.0, 0.5, -0.3, 0.1]\<close> it is 30.
\<close>

theorem calculate_overshoot_formula:
  "(length e < 2 \<or> \<bar>e ! 0\<bar> < 0.001 \<longrightarrow> calculate_overshoot e = 0)
   \<and> (\<not> (length e < 2 \<or> \<bar>e ! 0\<bar> < 0.001) \<and> e ! 0 > 0
        \<longrightarrow> calculate_overshoot e = max 0 (- Min (set e)) / (e ! 0) * 100)
   \<and> (\<not> (length e < 2 \<or> \<bar>e ! 0\<bar> < 0.001) \<and> e ! 0 < 0
        \<longrightarrow> calculate_overshoot e = max 0 (Max (set e)) / \<bar>e ! 0\<bar> * 100)
   \<and> calculate_overshoot [1.0, 0.5, - 0.3, 0.1] = 30"
  by (auto simp add: calculate_overshoot_def Let_def abs_if max_def field_simps)

theorem calculate_overshoot_formula_witness:
  "\<not> (length [- 2, 1 :: real] < 2 \<or> \<bar>[- 2, 1 :: real] ! 0\<bar> < 0.001) \<and> [- 2, 1 :: real] ! 0 < 0
   \<and> calculate_overshoot [- 2, 1] = 50
   \<and> calculate_overshoot [0.0005, 0.2, - 0.3] = 0
   \<and> calculate_overshoot [2, 1, - 1] = 50"
  using calculate_overshoot_formula [of "[- 2, 1]"]
    calculate_overshoot_formula [of "[0.0005, 0.2, - 0.3]"]
    calculate_overshoot_formula [of "[2, 1, - 1]"]
  by simp

section \<open>Settling time\<close>

text \<open>
  C1. Five samples 0.25 s to 0.5 s apart; the forward error is 1 m at 0.25 s and 0 at every
  other sample, the other two errors are 0 throughout. The sample at 0.25 s is out of
  tolerance, all samples from 0.5 s on are within it, and the data runs to 1.5 s.
  \<^verbatim>\<open>_calculate_settling_time\<close> returns 0.0: it tests only the samples at or after
  \<open>t0 + 0.5\<close> and so accepts the candidate 0.0 although the signal leaves the tolerance
  band 0.25 s later. On the specification's own re-excursion test (samples every 0.2 s up
  to 2.0 s, in tolerance from 1.0 s on except at 1.8 s) it returns 1.4, a candidate that
  is followed by the out-of-tolerance sample at 1.8 s.
\<close>

theorem settling_time_ignores_window:
  "within_tolerance [0, 1, 0, 0, 0] [0, 0, 0, 0, 0] [0, 0, 0, 0, 0] 0.10 0.05 2.0
     = [True, False, True, True, True]
   \<and> calculate_settling_time [0, 0.25, 0.5, 1, 1.5] [0, 1, 0, 0, 0] [0, 0, 0, 0, 0] [0, 0, 0, 0, 0]
        0.10 0.05 2.0 0.5 = Some 0
   \<and> settling_time (calculate_metrics [0, 0.25, 0.5, 1, 1.5] [0, 1, 0, 0, 0] [0, 0, 0, 0, 0]
        [0, 0, 0, 0, 0] [0, 0, 0, 0, 0] [0, 0, 0, 0, 0] [0, 0, 0, 0, 0]
        [True, True, True, True, True] [False, False, False, False, False]) = Some 0
   \<and> within_tolerance [1, 1, 1, 1, 1, 0, 0, 0, 0, 1, 0] [0, 0, 0, 0, 0, 0, 0, 0, 0, 0, 0]
        [0, 0, 0, 0, 0, 0, 0, 0, 0, 0, 0] 0.10 0.05 2.0
     = [False, False, False, False, False, True, True, True, True, False, True]
   \<and> calculate_settling_time [0, 0.2, 0.4, 0.6, 0.8, 1.0, 1.2, 1.4, 1.6, 1.8, 2.0]
        [1, 1, 1, 1, 1, 0, 0, 0, 0, 1, 0] [0, 0, 0, 0, 0, 0, 0, 0, 0, 0, 0]
        [0, 0, 0, 0, 0, 0, 0, 0, 0, 0, 0] 0.10 0.05 2.0 0.5 = Some 1.4"
  by (simp add: calculate_metrics_def calculate_settling_time_def within_tolerance_def)

section \<open>Resampling\<close>

lemma interp_at_sample:
  assumes "sorted (map fst ps)" and "(x, y) \<in> set ps"
    and "\<forall>p \<in> set ps. fst p = x \<longrightarrow> snd p = y"
  shows "interp_at ps x = y"
  using assms
proof (induction ps x rule: interp_at.induct)
  case (1 x)
  then show ?case by simp
next
  case (2 x0 y0 x)
  then show ?case by simp
next
  case (3 x0 y0 x1 y1 ps x)
  show ?case
  proof (cases "x < x1")
    case True
    have "x = x0"
    proof (rule ccontr)
      assume "x \<noteq> x0"
      with "3.prems"(2) have "(x, y) \<in> set ((x1, y1) # ps)" by auto
      with "3.prems"(1) have "x1 \<le> x" by force
      with True show False by simp
    qed
    with "3.prems"(3) True show ?thesis by simp
  next
    case False
    have mem: "(x, y) \<in> set ((x1, y1) # ps)"
    proof (cases "(x, y) = (x0, y0)")
      case True
      with "3.prems"(1) False have "x1 = x" by simp
      with "3.prems"(3) show ?thesis by simp
    next
      case False
      with "3.prems"(2) show ?thesis by auto
    qed
    from "3.prems"(1) have s: "sorted (map fst ((x1, y1) # ps))" by simp
    from "3.prems"(3) have c: "\<forall>p \<in> set ((x1, y1) # ps). fst p = x \<longrightarrow> snd p = y" by simp
    from False "3.IH"[OF _ s mem c] show ?thesis by simp
  qed
qed

lemma np_interp_self:
  assumes "sorted (map fst c)"
    and "\<forall>p \<in> set c. \<forall>q \<in> set c. fst p = fst q \<longrightarrow> snd p = snd q"
  shows "np_interp (map fst c) (map fst c) (map snd c) = map snd c"
proof -
  have "interp_at c (fst p) = snd p" if "p \<in> set c" for p
  proof (rule interp_at_sample)
    show "sorted (map fst c)" by (rule assms(1))
    show "(fst p, snd p) \<in> set c" using that by simp
    show "\<forall>q \<in> set c. fst q = fst p \<longrightarrow> snd q = snd p" using that assms(2) by blast
  qed
  then have "map (\<lambda>t. interp_at c t) (map fst c) = map snd c"
    by (simp only: map_map comp_def map_eq_conv) blast
  then show ?thesis
    unfolding np_interp_def zip_map_fst_snd .
qed


lemma threshold_indicator: "map (\<lambda>v. v > 0.5) (map (\<lambda>v. if v then 1 else 0 :: real) bs) = bs"
  by (induction bs) auto

text \<open>
  C9, as the claim states it, fails: three samples with non-decreasing timestamps, two
  of them at 1 s. A resampled value depends on the destination timestamp only, so both
  destination points at 1 s get one value (that of the later sample) and the 5 is lost.
\<close>

theorem resample_repeated_timestamp:
  "sorted [0, 1, 1 :: real]
   \<and> interp_to_common [0, 1, 1] [1, 5, 7] [0, 1, 1] = [1, 7, 7]
   \<and> interp_to_common [0, 1, 1] [1, 5, 7] [0, 1, 1] \<noteq> [1, 5, 7]"
  by (simp add: interp_to_common_def np_interp_def)

text \<open>
  C9, amended. For every non-empty channel with non-decreasing timestamps in which
  samples that share a timestamp share their value (so for every channel with strictly
  increasing timestamps), resampling onto its own timestamps returns its values exactly;
  likewise for a boolean channel, converted to 0.0/1.0 and thresholded at 0.5 as
  \<^verbatim>\<open>_extract_session\<close> does.
\<close>

theorem resample_onto_own_timestamps:
  assumes "c \<noteq> []" and "sorted (map fst c)"
    and "\<forall>p \<in> set c. \<forall>q \<in> set c. fst p = fst q \<longrightarrow> snd p = snd q"
  shows "interp_to_common (map fst c) (map snd c) (map fst c) = map snd c
    \<and> (b \<noteq> [] \<and> sorted (map fst b) \<and> (\<forall>p \<in> set b. \<forall>q \<in> set b. fst p = fst q \<longrightarrow> snd p = snd q)
        \<longrightarrow> map (\<lambda>v. v > 0.5) (interp_to_common (map fst b)
              (map (\<lambda>v. if v then 1 else 0) (map snd b)) (map fst b)) = map snd b)"
proof (intro conjI impI)
  from assms(1) have "length (map fst c) \<noteq> 0" "length (map snd c) \<noteq> 0" by simp_all
  then have "interp_to_common (map fst c) (map snd c) (map fst c)
      = np_interp (map fst c) (map fst c) (map snd c)"
    unfolding interp_to_common_def by simp
  also have "\<dots> = map snd c" by (rule np_interp_self[OF assms(2,3)])
  finally show "interp_to_common (map fst c) (map snd c) (map fst c) = map snd c" .
next
  assume h: "b \<noteq> [] \<and> sorted (map fst b) \<and> (\<forall>p \<in> set b. \<forall>q \<in> set b. fst p = fst q \<longrightarrow> snd p = snd q)"
  define ind where "ind = (\<lambda>v :: bool. if v then 1 else 0 :: real)"
  define b' where "b' = map (\<lambda>p. (fst p, ind (snd p))) b"
  have f: "map fst b' = map fst b" and s: "map snd b' = map (\<lambda>v. if v then 1 else 0) (map snd b)"
    by (simp_all add: b'_def ind_def comp_def)
  from h have so: "sorted (map fst b')" by (simp only: f)
  have co: "\<forall>p \<in> set b'. \<forall>q \<in> set b'. fst p = fst q \<longrightarrow> snd p = snd q"
  proof (intro ballI impI)
    fix p q assume p: "p \<in> set b'" and q: "q \<in> set b'" and e: "fst p = fst q"
    from p obtain p0 where p0: "p0 \<in> set b" "p = (fst p0, ind (snd p0))"
      unfolding b'_def set_map by blast
    from q obtain q0 where q0: "q0 \<in> set b" "q = (fst q0, ind (snd q0))"
      unfolding b'_def set_map by blast
    from e p0(2) q0(2) have "fst p0 = fst q0" by simp
    with h p0(1) q0(1) have "snd p0 = snd q0" by blast
    with p0(2) q0(2) show "snd p = snd q" by simp
  qed
  have "np_interp (map fst b') (map fst b') (map snd b') = map snd b'"
    by (rule np_interp_self[OF so co])
  then have n: "np_interp (map fst b) (map fst b) (map (\<lambda>v. if v then 1 else 0) (map snd b))
      = map (\<lambda>v. if v then 1 else 0) (map snd b)"
    by (simp only: f s)
  from h have "length (map fst b) \<noteq> 0" "length (map (\<lambda>v. if v then 1 else 0 :: real) (map snd b)) \<noteq> 0"
    by simp_all
  then have "interp_to_common (map fst b) (map (\<lambda>v. if v then 1 else 0) (map snd b)) (map fst b)
      = np_interp (map fst b) (map fst b) (map (\<lambda>v. if v then 1 else 0) (map snd b))"
    unfolding interp_to_common_def by simp
  with n show "map (\<lambda>v. v > 0.5) (interp_to_common (map fst b)
              (map (\<lambda>v. if v then 1 else 0) (map snd b)) (map fst b)) = map snd b"
    by (simp only: threshold_indicator)
qed

theorem resample_onto_own_timestamps_witness:
  "[(0 :: real, 1 :: real), (1, 5), (1, 5), (2, 3)] \<noteq> []
   \<and> sorted (map fst [(0 :: real, 1 :: real), (1, 5), (1, 5), (2, 3)])
   \<and> interp_to_common [0, 1, 1, 2] [1, 5, 5, 3] [0, 1, 1, 2] = [1, 5, 5, 3]
   \<and> map (\<lambda>v. v > 0.5) (interp_to_common [0, 1] [1, 0] [0, 1]) = [True, False]"
proof -
  have c: "[(0 :: real, 1 :: real), (1, 5), (1, 5), (2, 3)] \<noteq> []"
    "sorted (map fst [(0 :: real, 1 :: real), (1, 5), (1, 5), (2, 3)])"
    "\<forall>p \<in> set [(0 :: real, 1 :: real), (1, 5), (1, 5), (2, 3)].
       \<forall>q \<in> set [(0 :: real, 1 :: real), (1, 5), (1, 5), (2, 3)]. fst p = fst q \<longrightarrow> snd p = snd q"
    by simp_all
  have b: "[(0 :: real, True), (1, False)] \<noteq> [] \<and> sorted (map fst [(0 :: real, True), (1, False)])
     \<and> (\<forall>p \<in> set [(0 :: real, True), (1, False)]. \<forall>q \<in> set [(0 :: real, True), (1, False)].
           fst p = fst q \<longrightarrow> snd p = snd q)"
    by simp
  from resample_onto_own_timestamps[OF c, of "[(0, True), (1, False)]"] b
  have "interp_to_common (map fst [(0 :: real, 1 :: real), (1, 5), (1, 5), (2, 3)])
          (map snd [(0 :: real, 1 :: real), (1, 5), (1, 5), (2, 3)])
          (map fst [(0 :: real, 1 :: real), (1, 5), (1, 5), (2, 3)])
        = map snd [(0 :: real, 1 :: real), (1, 5), (1, 5), (2, 3)]"
    and "map (\<lambda>v. v > 0.5) (interp_to_common (map fst [(0 :: real, True), (1, False)])
              (map (\<lambda>v. if v then 1 else 0) (map snd [(0 :: real, True), (1, False)]))
              (map fst [(0 :: real, True), (1, False)])) = map snd [(0 :: real, True), (1, False)]"
    by blast+
  with c show ?thesis by simp
qed

section \<open>Properties of session extraction\<close>

lemmas extraction_defs = extract_session_def get_values_in_range_def reference_timestamps_def
  window_reference_def len_def Let_def interp_to_common_def np_interp_def

lemmas segmentation_defs = find_alignment_sessions_def scan_sessions_def close_open_session_def

lemma extract_session_short:
  assumes "data_status d = Some st" "si < length st" "ei < length st"
    and "fst (st ! ei) - fst (st ! si) < 0.1"
  shows "extract_session d si ei = Inr None"
  using assms by (simp add: extract_session_def)

lemma extract_session_no_reference:
  assumes "data_status d = Some st" "si < length st" "ei < length st"
    and "window_reference d (fst (st ! si)) (fst (st ! ei)) = None"
  shows "extract_session d si ei = Inr None"
  using assms by (simp add: extract_session_def window_reference_def Let_def case_prod_beta)

lemma astype_float_error: "astype_float x = Inl e \<Longrightarrow> e = AttributeError"
  by (cases x) simp_all

lemma extract_session_absent_flag:
  assumes "data_status d = Some st" "si < length st" "ei < length st"
    and "\<not> fst (st ! ei) - fst (st ! si) < 0.1"
    and "window_reference d (fst (st ! si)) (fst (st ! ei)) = Some r"
    and "data_vision_has_target d = None \<or> data_fully_aligned d = None"
  shows "extract_session d si ei = Inl AttributeError"
proof -
  have a: "\<And>a b. astype_float (snd (get_values_in_range (None :: bool channel option) a b)) = Inl AttributeError"
    by (simp add: get_values_in_range_def)
  from assms(6) show ?thesis
  proof
    assume "data_vision_has_target d = None"
    with assms(1-5) a show ?thesis
      by (simp add: extract_session_def window_reference_def Let_def case_prod_beta)
  next
    assume "data_fully_aligned d = None"
    with assms(1-5) a show ?thesis
      by (auto simp add: extract_session_def window_reference_def Let_def case_prod_beta
            split: sum.splits dest: astype_float_error)
  qed
qed

lemma extract_session_present:
  assumes "data_status d = Some st" "si < length st" "ei < length st"
    and "\<not> fst (st ! ei) - fst (st ! si) < 0.1"
    and "window_reference d (fst (st ! si)) (fst (st ! ei)) = Some r"
    and "data_vision_has_target d = Some h" "data_fully_aligned d = Some a"
  shows "\<exists>s. extract_session d si ei = Inr (Some s)
           \<and> start_time s = fst (st ! si) \<and> end_time s = fst (st ! ei)
           \<and> duration s = fst (st ! ei) - fst (st ! si)
           \<and> timestamps s = map (\<lambda>t. t - fst (st ! si)) r"
proof -
  have p: "\<And>c a b. astype_float (snd (get_values_in_range (Some c) a b)) =
      Inr (map (\<lambda>b. if b then 1 else 0) (map snd (filter (\<lambda>(t, v). t \<ge> a \<and> t \<le> b) c)))"
    by (simp add: get_values_in_range_def Let_def)
  from assms p show ?thesis
    by (simp add: extract_session_def window_reference_def Let_def case_prod_beta)
qed

lemma extract_session_SomeD:
  assumes "extract_session d si ei = Inr (Some s)"
  shows "\<exists>st r. data_status d = Some st \<and> si < length st \<and> ei < length st
           \<and> start_time s = fst (st ! si) \<and> end_time s = fst (st ! ei)
           \<and> duration s = end_time s - start_time s \<and> \<not> duration s < 0.1
           \<and> window_reference d (start_time s) (end_time s) = Some r
           \<and> timestamps s = map (\<lambda>t. t - start_time s) r
           \<and> metrics s = calculate_metrics (timestamps s) (forward_error s) (lateral_error s)
                 (rotation_error s) (forward_speed s) (lateral_speed s) (rotation_speed s)
                 (has_target s) (aligned_flags s)"
  using assms
  by (auto simp add: extract_session_def window_reference_def Let_def case_prod_beta
        split: option.splits sum.splits if_splits)

lemma get_values_in_range_bounds:
  "t \<in> set (items (fst (get_values_in_range ch a b))) \<Longrightarrow> a \<le> t \<and> t \<le> b"
  by (cases ch) (auto simp add: get_values_in_range_def Let_def)

lemma window_reference_Some:
  assumes "window_reference d a b = Some r"
  shows "r \<noteq> [] \<and> (\<forall>t \<in> set r. a \<le> t \<and> t \<le> b)"
  using assms get_values_in_range_bounds
  by (auto simp add: window_reference_def reference_timestamps_def len_def split: if_splits)

text \<open>
  C6, amended. In every extracted session the timestamp array is the reference
  timestamps minus \<open>start_time\<close>, the status-channel timestamp of the sample that opened
  the session; the metrics are computed on that array. Each entry lies between 0 and the
  session's duration, the array is not empty, and its first entry is 0 exactly when the
  first reference timestamp in the window is \<open>start_time\<close> itself.
\<close>

theorem session_relative_timestamps:
  assumes "extract_session d start_idx end_idx = Inr (Some s)"
  shows "\<exists>st r. data_status d = Some st \<and> start_time s = fst (st ! start_idx)
           \<and> window_reference d (start_time s) (end_time s) = Some r \<and> r \<noteq> []
           \<and> timestamps s = map (\<lambda>t. t - start_time s) r
           \<and> (\<forall>t \<in> set (timestamps s). 0 \<le> t \<and> t \<le> duration s)
           \<and> (timestamps s ! 0 = 0 \<longleftrightarrow> r ! 0 = start_time s)
           \<and> metrics s = calculate_metrics (timestamps s) (forward_error s) (lateral_error s)
                 (rotation_error s) (forward_speed s) (lateral_speed s) (rotation_speed s)
                 (has_target s) (aligned_flags s)"
proof -
  from extract_session_SomeD[OF assms] obtain st r where
    f: "data_status d = Some st" "start_time s = fst (st ! start_idx)"
      "duration s = end_time s - start_time s"
      "window_reference d (start_time s) (end_time s) = Some r"
      "timestamps s = map (\<lambda>t. t - start_time s) r"
      "metrics s = calculate_metrics (timestamps s) (forward_error s) (lateral_error s)
                 (rotation_error s) (forward_speed s) (lateral_speed s) (rotation_speed s)
                 (has_target s) (aligned_flags s)"
    by blast
  from window_reference_Some[OF f(4)] have r: "r \<noteq> []" "\<forall>t \<in> set r. start_time s \<le> t \<and> t \<le> end_time s"
    by simp_all
  from r(2) f(3,5) have b: "\<forall>t \<in> set (timestamps s). 0 \<le> t \<and> t \<le> duration s" by auto
  from r(1) f(5) have z: "timestamps s ! 0 = 0 \<longleftrightarrow> r ! 0 = start_time s"
    by (cases r) simp_all
  from f r(1) b z show ?thesis by blast
qed

text \<open>
  C6, as the claim states it, fails: the session opens at the status sample at 1 s, the
  first forward-error sample in the window comes at 1.25 s, and the session-relative
  array starts at 0.25.
\<close>

theorem late_reference_timestamps:
  "(case extract_session late_reference_log 0 1 of
      Inr (Some s) \<Rightarrow> start_time s = 1 \<and> timestamps s = [0.25, 0.5, 1] \<and> timestamps s ! 0 \<noteq> 0
    | _ \<Rightarrow> False)"
  by (simp add: late_reference_log_def extraction_defs)

theorem session_relative_timestamps_witness:
  "\<exists>s. extract_session late_reference_log 0 1 = Inr (Some s)
       \<and> timestamps s \<noteq> []
       \<and> (\<forall>t \<in> set (timestamps s). 0 \<le> t \<and> t \<le> duration s)
       \<and> metrics s = calculate_metrics (timestamps s) (forward_error s) (lateral_error s)
             (rotation_error s) (forward_speed s) (lateral_speed s) (rotation_speed s)
             (has_target s) (aligned_flags s)"
proof -
  have "\<exists>s. extract_session late_reference_log 0 1 = Inr (Some s)"
    by (simp add: late_reference_log_def extraction_defs)
  then obtain s where s: "extract_session late_reference_log 0 1 = Inr (Some s)" ..
  from session_relative_timestamps[OF s] s show ?thesis by auto
qed

text \<open>
  C8. An attempt whose STARTED and COMPLETED samples are 3 s apart, with forward-error
  samples in the window and so with reference timestamps, in a log without a
  \<^verbatim>\<open>Vision/HasTarget\<close> field: the session is not kept. \<^verbatim>\<open>has_target.astype(float)\<close>
  raises AttributeError in \<^verbatim>\<open>_extract_session\<close>, and \<^verbatim>\<open>find_alignment_sessions\<close> returns
  no session list at all. The same attempt logged with that field yields one session,
  as do spans of exactly 0.1 s; a span of 0.05 s yields none, without an exception.
\<close>

theorem kept_session_raises_without_has_target:
  "data_status no_has_target_log = Some [(0, ''STARTED''), (3, ''COMPLETED'')]
   \<and> \<not> (3 - 0 < (0.1 :: real))
   \<and> window_reference no_has_target_log 0 3 = Some [0, 3]
   \<and> data_vision_has_target no_has_target_log = None
   \<and> extract_session no_has_target_log 0 1 = Inl AttributeError
   \<and> find_alignment_sessions no_has_target_log = Inl AttributeError
   \<and> map_sum id length (find_alignment_sessions (attempt_log 3)) = Inr 1
   \<and> map_sum id length (find_alignment_sessions (attempt_log 0.1)) = Inr 1
   \<and> extract_session (attempt_log 0.05) 0 1 = Inr None
   \<and> map_sum id length (find_alignment_sessions (attempt_log 0.05)) = Inr 0"
  by (simp add: no_has_target_log_def attempt_log_def segmentation_defs extraction_defs)

text \<open>
  C2. A log with status and error channels and no \<^verbatim>\<open>FullyAligned\<close> field:
  \<^verbatim>\<open>get_values_in_range\<close> returns the Python list \<^verbatim>\<open>[]\<close> for the absent channel and
  \<^verbatim>\<open>aligned_flags.astype(float)\<close> raises AttributeError, in \<^verbatim>\<open>_extract_session\<close> and so
  in \<^verbatim>\<open>find_alignment_sessions\<close>; likewise for an absent \<^verbatim>\<open>Vision/HasTarget\<close>. With the
  channel in the log the same attempt yields one session.
\<close>

theorem absent_flag_channel_raises:
  "data_fully_aligned no_aligned_flag_log = None
   \<and> extract_session no_aligned_flag_log 0 1 = Inl AttributeError
   \<and> find_alignment_sessions no_aligned_flag_log = Inl AttributeError
   \<and> extract_session (one_attempt_log \<lparr> data_vision_has_target := None \<rparr>) 0 1 = Inl AttributeError
   \<and> (\<exists>s. find_alignment_sessions one_attempt_log = Inr [s])"
  by (simp add: no_aligned_flag_log_def one_attempt_log_def segmentation_defs extraction_defs)

text \<open>
  C3. In the window from 0 s to 1 s the forward-error channel has one sample and the
  rotation-error channel three; the reference timestamps are the forward-error channel's
  single one, not those of the channel with the most samples.
\<close>

theorem reference_prefers_forward_error:
  "len (fst (get_values_in_range (data_forward_error sparse_forward_log) 0 1)) = 1
   \<and> len (fst (get_values_in_range (data_rotation_error sparse_forward_log) 0 1)) = 3
   \<and> window_reference sparse_forward_log 0 1 = Some [0.5]
   \<and> (case extract_session sparse_forward_log 0 1 of
         Inr (Some s) \<Rightarrow> start_time s = 0 \<and> end_time s = 1 \<and> timestamps s = [0.5]
       | _ \<Rightarrow> False)"
  by (simp add: sparse_forward_log_def extraction_defs)

section \<open>Properties of the segmentation\<close>

lemma scan_loop_segmenter:
  assumes "n = i + length vals - 1"
  shows "(case scan_loop ex vals i (state_flag st) (state_start st) acc of
      Inl e \<Rightarrow> Inl e
    | Inr (b, ssi, acc') \<Rightarrow> close_open_session ex n b ssi acc')
   = (case extract_all ex (segmenter_run st i vals) of
        Inl e \<Rightarrow> Inl e
      | Inr xs \<Rightarrow> Inr (acc @ xs))"
  using assms
proof (induction vals arbitrary: i st acc)
  case Nil
  then show ?case
    by (cases st) (simp_all add: close_open_session_def split: sum.splits option.splits)
next
  case (Cons v vals)
  from Cons.prems have n: "n = Suc i + length vals - 1" by simp
  note IH = Cons.IH[OF n]
  show ?case
  proof (cases st)
    case IDLE
    show ?thesis
    proof (cases "v = ''STARTED'' \<or> v = ''ALIGNING''")
      case True
      with IDLE IH[where st = "IN_SESSION i" and acc = acc] show ?thesis by auto
    next
      case False
      with IDLE IH[where st = IDLE and acc = acc] show ?thesis by auto
    qed
  next
    case (IN_SESSION s)
    show ?thesis
    proof (cases "v = ''COMPLETED'' \<or> v = ''INTERRUPTED''")
      case False
      with IN_SESSION IH[where st = "IN_SESSION s" and acc = acc] show ?thesis by auto
    next
      case True
      show ?thesis
      proof (cases "ex s i")
        case (Inl e)
        with True IN_SESSION show ?thesis by auto
      next
        case (Inr r)
        show ?thesis
        proof (cases r)
          case None
          with Inr True IN_SESSION IH[where st = IDLE and acc = acc] show ?thesis
            by (auto split: sum.splits)
        next
          case (Some x)
          with Inr True IN_SESSION IH[where st = IDLE and acc = "acc @ [x]"] show ?thesis
            by (auto split: sum.splits)
        qed
      qed
    qed
  qed
qed

lemma scan_sessions_segmenter:
  "scan_sessions ex status_data = extract_all ex (segmenter_run IDLE 0 (map snd status_data))"
  using scan_loop_segmenter[where ex = ex and vals = "map snd status_data" and i = 0
      and st = IDLE and acc = "[]" and n = "length status_data - 1"]
  by (simp add: scan_sessions_def split: sum.splits)

lemma extract_all_keep: "extract_all (\<lambda>s e. Inr (Some (s, e))) rs = Inr rs"
  by (induction rs) auto

lemma session_ranges_segmenter:
  "session_ranges status_data = segmenter_run IDLE 0 (map snd status_data)"
  by (simp add: session_ranges_def scan_sessions_segmenter extract_all_keep)


text \<open>
  C4. The scan of \<^verbatim>\<open>find_alignment_sessions\<close> is the two-state machine of the
  specification: from IDLE a STARTED or ALIGNING sample opens a session at its index, from
  IN_SESSION a COMPLETED or INTERRUPTED sample closes it at its index, any other status
  changes nothing, and a session open at the end of the scan is closed at the last
  index; the ranges so found are extracted in order. For the sequence IDLE, STARTED,
  ALIGNING, COMPLETED, IDLE, STARTED, INTERRUPTED the ranges are (1, 3) and (5, 6), and with
  timestamps 0.2 s apart two sessions are found, from 0.2 s to 0.6 s and from 1.0 s to
  1.2 s.
\<close>

theorem segmenter_state_machine:
  "scan_sessions ex status_data = extract_all ex (segmenter_run IDLE 0 (map snd status_data))
   \<and> session_ranges status_data = segmenter_run IDLE 0 (map snd status_data)
   \<and> find_alignment_sessions d =
       (case data_status d of
          None \<Rightarrow> Inr []
        | Some st \<Rightarrow> extract_all (extract_session d) (segmenter_run IDLE 0 (map snd st)))
   \<and> segmenter_run IDLE 0 [''IDLE'', ''STARTED'', ''ALIGNING'', ''COMPLETED'', ''IDLE'', ''STARTED'',
        ''INTERRUPTED''] = [(1, 3), (5, 6)]
   \<and> map_sum id (map (\<lambda>s. (start_time s, end_time s))) (find_alignment_sessions seven_status_log)
       = Inr [(0.2, 0.6), (1.0, 1.2)]"
proof (intro conjI)
  show "scan_sessions ex status_data = extract_all ex (segmenter_run IDLE 0 (map snd status_data))"
    by (rule scan_sessions_segmenter)
  show "session_ranges status_data = segmenter_run IDLE 0 (map snd status_data)"
    by (rule session_ranges_segmenter)
  show "find_alignment_sessions d =
       (case data_status d of
          None \<Rightarrow> Inr []
        | Some st \<Rightarrow> extract_all (extract_session d) (segmenter_run IDLE 0 (map snd st)))"
    by (simp add: find_alignment_sessions_def scan_sessions_segmenter split: option.splits)
  show "segmenter_run IDLE 0 [''IDLE'', ''STARTED'', ''ALIGNING'', ''COMPLETED'', ''IDLE'', ''STARTED'',
        ''INTERRUPTED''] = [(1, 3), (5, 6)]"
    by simp
  show "map_sum id (map (\<lambda>s. (start_time s, end_time s))) (find_alignment_sessions seven_status_log)
       = Inr [(0.2, 0.6), (1.0, 1.2)]"
    by (simp add: seven_status_log_def segmentation_defs extraction_defs)
qed

theorem segmenter_state_machine_witness:
  "scan_sessions (\<lambda>s e. Inr (Some (s, e)))
       [(0, ''STARTED''), (1, ''COMPLETED''), (2, ''IDLE''), (3, ''ALIGNING''), (4, ''ALIGNING'')]
     = Inr [(0, 1), (3, 4)]
   \<and> session_ranges [(0, ''COMPLETED''), (1, ''STARTED''), (2, ''STARTED''), (3, ''INTERRUPTED'')]
     = [(1, 3)]"
  using segmenter_state_machine [of "\<lambda>s e. Inr (Some (s, e))"
      "[(0, ''STARTED''), (1, ''COMPLETED''), (2, ''IDLE''), (3, ''ALIGNING''), (4, ''ALIGNING'')]"]
    segmenter_state_machine [of "\<lambda>s e. Inr (Some (s, e))"
      "[(0, ''COMPLETED''), (1, ''STARTED''), (2, ''STARTED''), (3, ''INTERRUPTED'')]"]
  by simp

lemma ranges_ordered_weaken: "ranges_ordered lo rs \<Longrightarrow> lo' \<le> lo \<Longrightarrow> ranges_ordered lo' rs"
  by (cases rs) auto

lemma segmenter_run_ordered:
  "(case st of IDLE \<Rightarrow> ranges_ordered i (segmenter_run st i vals)
     | IN_SESSION s \<Rightarrow> s < i \<longrightarrow> ranges_ordered s (segmenter_run st i vals))"
proof (induction vals arbitrary: i st)
  case Nil
  show ?case by (cases st) auto
next
  case (Cons v vals)
  show ?case
  proof (cases st)
    case IDLE
    with Cons[where st = IDLE and i = "Suc i"] Cons[where st = "IN_SESSION i" and i = "Suc i"]
    show ?thesis
      by (auto intro: ranges_ordered_weaken)
  next
    case (IN_SESSION s)
    with Cons[where st = IDLE and i = "Suc i"] Cons[where st = "IN_SESSION s" and i = "Suc i"]
    show ?thesis
      by (auto intro: ranges_ordered_weaken)
  qed
qed

lemma segmenter_run_bound:
  "(s, e) \<in> set (segmenter_run st i vals) \<Longrightarrow> (case st of IDLE \<Rightarrow> True | IN_SESSION s0 \<Rightarrow> s0 < i)
     \<Longrightarrow> e < i + length vals"
proof (induction vals arbitrary: i st)
  case Nil
  then show ?case by (cases st) auto
next
  case (Cons v vals)
  show ?case
  proof (cases st)
    case IDLE
    with Cons.prems Cons.IH[where st = IDLE and i = "Suc i"]
      Cons.IH[where st = "IN_SESSION i" and i = "Suc i"]
    show ?thesis
      by (auto split: if_splits)
  next
    case (IN_SESSION s0)
    with Cons.prems Cons.IH[where st = IDLE and i = "Suc i"]
      Cons.IH[where st = "IN_SESSION s0" and i = "Suc i"]
    show ?thesis
      by (auto split: if_splits)
  qed
qed


lemma ranges_ordered_sorted:
  "ranges_ordered lo rs \<Longrightarrow>
     sorted_wrt (\<lambda>a b. snd a < fst b) rs \<and> (\<forall>r \<in> set rs. lo \<le> fst r \<and> fst r \<le> snd r)"
proof (induction rs arbitrary: lo)
  case Nil
  then show ?case by simp
next
  case (Cons r rs)
  obtain s e where r: "r = (s, e)" by (cases r)
  from Cons.prems r have o: "lo \<le> s" "s \<le> e" "ranges_ordered (Suc e) rs" by simp_all
  from Cons.IH[OF o(3)] have ih: "sorted_wrt (\<lambda>a b. snd a < fst b) rs"
    "\<forall>r \<in> set rs. Suc e \<le> fst r \<and> fst r \<le> snd r" by simp_all
  from ih(2) o have "\<forall>r' \<in> set rs. e < fst r' \<and> lo \<le> fst r' \<and> fst r' \<le> snd r'" by auto
  with ih(1) o r show ?case by auto
qed

lemma extract_all_filter:
  "extract_all ex rs0 = Inr xs \<Longrightarrow>
     list_all2 (\<lambda>x r. ex (fst r) (snd r) = Inr (Some x)) xs
       (filter (\<lambda>r. \<exists>x. ex (fst r) (snd r) = Inr (Some x)) rs0)"
proof (induction rs0 arbitrary: xs)
  case Nil
  then show ?case by simp
next
  case (Cons r rs0)
  obtain s e where r: "r = (s, e)" by (cases r)
  from Cons.prems r obtain y ys where
    y: "ex s e = Inr y" "extract_all ex rs0 = Inr ys" "xs = (case y of None \<Rightarrow> [] | Some x \<Rightarrow> [x]) @ ys"
    by (auto split: sum.splits)
  from Cons.IH[OF y(2)] y(1,3) r show ?case
    by (cases y) auto
qed

text \<open>
  C10. For a status channel with non-decreasing timestamps, the sessions that
  \<^verbatim>\<open>find_alignment_sessions\<close> returns come, in order, from status-index ranges of the
  scan: each range has its start index no later than its end index, the ranges are
  disjoint, and each later range starts strictly after the previous one has ended. Each
  session has \<open>start_time \<le> end_time\<close> and \<open>duration = end_time - start_time \<ge> 0.1\<close>, and
  each session ends no later than the next one starts.
\<close>

theorem sessions_ordered_disjoint:
  assumes "find_alignment_sessions d = Inr ss" and "data_status d = Some st"
    and "sorted (map fst st)"
  shows "\<exists>rs. list_all2 (\<lambda>x r. extract_session d (fst r) (snd r) = Inr (Some x)
                      \<and> start_time x = fst (st ! fst r) \<and> end_time x = fst (st ! snd r)) ss rs
          \<and> set rs \<subseteq> set (session_ranges st)
          \<and> (\<forall>r \<in> set rs. fst r \<le> snd r \<and> snd r < length st)
          \<and> sorted_wrt (\<lambda>a b. snd a < fst b) rs
          \<and> (\<forall>x \<in> set ss. start_time x \<le> end_time x
                \<and> duration x = end_time x - start_time x \<and> duration x \<ge> 0.1)
          \<and> sorted_wrt (\<lambda>a b. end_time a \<le> start_time b) ss"
proof -
  define R where "R = segmenter_run IDLE 0 (map snd st)"
  define rs where "rs = filter (\<lambda>r. \<exists>x. extract_session d (fst r) (snd r) = Inr (Some x)) R"
  have R: "session_ranges st = R" by (simp add: R_def session_ranges_segmenter)
  from assms(1,2) have ex: "extract_all (extract_session d) R = Inr ss"
    by (simp add: find_alignment_sessions_def scan_sessions_segmenter R_def)
  from extract_all_filter[OF ex]
  have l: "list_all2 (\<lambda>x r. extract_session d (fst r) (snd r) = Inr (Some x)) ss rs"
    by (simp add: rs_def)
  from segmenter_run_ordered[where st = IDLE and i = 0 and vals = "map snd st"] have "ranges_ordered 0 R"
    by (simp add: R_def)
  from ranges_ordered_sorted[OF this]
  have so: "sorted_wrt (\<lambda>a b. snd a < fst b) R" and le: "\<forall>r \<in> set R. fst r \<le> snd r" by simp_all
  have bd: "\<forall>r \<in> set R. snd r < length st"
  proof
    fix r assume "r \<in> set R"
    then have "(fst r, snd r) \<in> set (segmenter_run IDLE 0 (map snd st))" by (simp add: R_def)
    from segmenter_run_bound[OF this] show "snd r < length st" by simp
  qed
  have sub: "set rs \<subseteq> set R" by (auto simp add: rs_def)
  from so have so': "sorted_wrt (\<lambda>a b. snd a < fst b) rs"
    unfolding rs_def by (rule sorted_wrt_filter)
  have l2: "list_all2 (\<lambda>x r. extract_session d (fst r) (snd r) = Inr (Some x)
                      \<and> start_time x = fst (st ! fst r) \<and> end_time x = fst (st ! snd r)) ss rs"
  proof (rule list_all2_mono[OF l])
    fix x r assume e: "extract_session d (fst r) (snd r) = Inr (Some x)"
    from extract_session_SomeD[OF e] assms(2)
    show "extract_session d (fst r) (snd r) = Inr (Some x)
                      \<and> start_time x = fst (st ! fst r) \<and> end_time x = fst (st ! snd r)"
      using e by auto
  qed
  have each: "\<forall>x \<in> set ss. start_time x \<le> end_time x
                \<and> duration x = end_time x - start_time x \<and> duration x \<ge> 0.1"
  proof
    fix x assume "x \<in> set ss"
    with l obtain r where "extract_session d (fst r) (snd r) = Inr (Some x)"
      by (auto simp add: in_set_conv_nth list_all2_conv_all_nth)
    from extract_session_SomeD[OF this]
    show "start_time x \<le> end_time x \<and> duration x = end_time x - start_time x \<and> duration x \<ge> 0.1"
      by auto
  qed
  have chrono: "sorted_wrt (\<lambda>a b. end_time a \<le> start_time b) ss"
    unfolding sorted_wrt_iff_nth_less
  proof (intro allI impI)
    fix i j assume ij: "i < j" "j < length ss"
    from l2 have len: "length ss = length rs" by (rule list_all2_lengthD)
    from l2 ij have a: "end_time (ss ! i) = fst (st ! snd (rs ! i))"
      by (simp add: list_all2_conv_all_nth)
    from l2 ij have b: "start_time (ss ! j) = fst (st ! fst (rs ! j))"
      by (simp add: list_all2_conv_all_nth)
    from so' ij len have lt: "snd (rs ! i) < fst (rs ! j)"
      by (simp add: sorted_wrt_iff_nth_less)
    from ij len have "rs ! j \<in> set rs" by simp
    with sub le bd have "fst (rs ! j) < length st" by (meson subsetD le_less_trans)
    with lt assms(3) have "fst (st ! snd (rs ! i)) \<le> fst (st ! fst (rs ! j))"
      by (simp add: sorted_iff_nth_mono less_imp_le)
    with a b show "end_time (ss ! i) \<le> start_time (ss ! j)" by simp
  qed
  from l2 sub R le bd so' each chrono show ?thesis
    by (intro exI[of _ rs]) auto
qed

theorem sessions_ordered_disjoint_witness:
  "\<exists>ss. find_alignment_sessions seven_status_log = Inr ss
      \<and> length ss = 2
      \<and> (\<forall>x \<in> set ss. start_time x \<le> end_time x
            \<and> duration x = end_time x - start_time x \<and> duration x \<ge> 0.1)
      \<and> sorted_wrt (\<lambda>a b. end_time a \<le> start_time b) ss"
proof -
  have "\<exists>ss. find_alignment_sessions seven_status_log = Inr ss \<and> length ss = 2"
    by (simp add: seven_status_log_def segmentation_defs extraction_defs)
  then obtain ss where ss: "find_alignment_sessions seven_status_log = Inr ss" "length ss = 2"
    by blast
  have st: "data_status seven_status_log = Some [(0, ''IDLE''), (0.2, ''STARTED''), (0.4, ''ALIGNING''),
                           (0.6, ''COMPLETED''), (0.8, ''IDLE''), (1.0, ''STARTED''),
                           (1.2, ''INTERRUPTED'')]"
    by (simp add: seven_status_log_def)
  have so: "sorted (map fst [(0 :: real, ''IDLE''), (0.2, ''STARTED''), (0.4, ''ALIGNING''),
                           (0.6, ''COMPLETED''), (0.8, ''IDLE''), (1.0, ''STARTED''),
                           (1.2, ''INTERRUPTED'')])"
    by simp
  from sessions_ordered_disjoint[OF ss(1) st so] ss show ?thesis by blast
qed

section \<open>Properties of the summary\<close>

text \<open>
  C5. Two sessions extracted from one log: the first has \<open>alignment_time = 0.0\<close> (aligned
  at its first sample), the second 2.0. The comprehension
  \<^verbatim>\<open>[... for s in sessions if s.metrics.alignment_time]\<close> tests the truth of the value, so
  it keeps 2.0 only: the summary reports mean 2.0 and deviation 0.0, where the values that
  are not \<^verbatim>\<open>None\<close> are 0.0 and 2.0 with mean 1.0. The success rate is 100.
\<close>

theorem summary_drops_zero_alignment_time:
  "map_sum id (map (\<lambda>s. alignment_time (metrics s))) (find_alignment_sessions two_attempts_log)
     = Inr [Some 0, Some 2]
   \<and> truthy_values [Some 0, Some 2] = [2]
   \<and> (case find_alignment_sessions two_attempts_log of
         Inl e \<Rightarrow> None
       | Inr ss \<Rightarrow> map_option (\<lambda>r. (success_rate r, alignment_time_stats r)) (summary ss))
     = Some (100, Some (2, 0))
   \<and> mean [0, 2] = 1"
  by (simp add: two_attempts_log_def segmentation_defs extraction_defs calculate_metrics_def
        summary_def truthy_values_def mean_def np_std_def)

end
